theory Spec2Isabelle
  imports Main "HOL-Library.Word" "HOL-Library.Multiset"
begin

unbundle bit_operations_syntax

section \<open>Exceptions and error kinds\<close>

text \<open>
  The exceptions the service raises are the three NestJS classes the source imports:
  \<open>UnauthorizedException\<close> (api-key.guard.ts), \<open>BadRequestException\<close> and
  \<open>NotFoundException\<close> (image.service.ts), each with its message. Three more
  failures come from the platform and not from a \<open>throw\<close> of the source:
  \<open>PayloadTooLargeException\<close> is the upload interceptor refusing a file part over
  its \<open>fileSize\<close> limit, \<open>SyntaxError\<close> is \<open>JSON.parse\<close> on a malformed
  string, \<open>StoreError\<close> is a rejected call of the document store.
\<close>

datatype exn =
    UnauthorizedException string
  | BadRequestException string
  | NotFoundException string
  | PayloadTooLargeException
  | SyntaxError
  | StoreError

text \<open>
  The error kinds of spec section 7. The source raises no exception of kind
  \<open>Forbidden\<close>; the platform failures have no kind in the spec.
\<close>

datatype error_kind = Unauthenticated | Forbidden | InvalidInput | NotFound

fun kind_of :: "exn \<Rightarrow> error_kind option" where
  "kind_of (UnauthorizedException m) = Some Unauthenticated"
| "kind_of (BadRequestException m) = Some InvalidInput"
| "kind_of (NotFoundException m) = Some NotFound"
| "kind_of PayloadTooLargeException = None"
| "kind_of SyntaxError = None"
| "kind_of StoreError = None"

section \<open>API keys and the guard (src/auth/api-key.guard.ts)\<close>

text \<open>
  \<open>IApiKey\<close> as the guard and the key scripts use it. The permission mask is only ever
  combined with \<open>&\<close> and \<open>|\<close>, which JavaScript evaluates on 32-bit integers.
\<close>

type_synonym perm = "32 word"

record api_key =
  ApiKeyID :: nat
  AppName :: string
  Key :: string
  Permissions :: perm
  Active :: bool

text \<open>
  \<open>API_KEY_PERMISSIONS\<close> is declared in the library package \<open>imagelib\<close>, whose
  values are not part of the sources; the four constants are a parameter.
\<close>

record api_key_permissions =
  READ :: perm
  WRITE :: perm
  DELETE :: perm
  ADMIN :: perm

text \<open>
  Modelled from the spec: \<open>hasApiPermission\<close> of \<open>imagelib\<close> is missing from the
  sources. Spec section 4.1: authorisation fails when the bitwise AND of the record's
  permission mask and the required permission is zero.
\<close>

definition hasApiPermission :: "perm \<Rightarrow> perm \<Rightarrow> bool" where
  "hasApiPermission permissions required = (permissions AND required \<noteq> 0)"

text \<open>
  \<open>canActivate\<close>. The arguments are what the guard reads: the digest function behind
  \<open>hashKey\<close>, the key collection, the \<open>x-api-key\<close> header (\<open>None\<close> when the header
  is absent; the empty string is falsy as well) and the handler's
  \<open>requiredPermission\<close> metadata (\<open>None\<close> when the handler has no
  \<open>@RequirePermission\<close>). On success the key record is attached to the request, so
  it is the result here.
\<close>

definition canActivate ::
  "(string \<Rightarrow> string) \<Rightarrow> api_key list \<Rightarrow> string option \<Rightarrow> perm option \<Rightarrow> exn + api_key" where
  "canActivate sha256 keys header requiredPermission =
     (case header of
        None \<Rightarrow> Inl (UnauthorizedException ''Missing X-API-Key header'')
      | Some apiKey \<Rightarrow>
          if apiKey = [] then Inl (UnauthorizedException ''Missing X-API-Key header'')
          else
            (case find (\<lambda>k. Key k = sha256 apiKey \<and> Active k) keys of
               None \<Rightarrow> Inl (UnauthorizedException ''Invalid or inactive API key'')
             | Some keyRecord \<Rightarrow>
                 (case requiredPermission of
                    None \<Rightarrow> Inr keyRecord
                  | Some required \<Rightarrow>
                      if required \<noteq> 0 \<and> \<not> hasApiPermission (Permissions keyRecord) required
                      then Inl (UnauthorizedException ''Insufficient permissions'')
                      else Inr keyRecord)))"

text \<open>
  The handlers of \<open>ImageController\<close> and the permission each one declares with
  \<open>@RequirePermission\<close>. \<open>@UseGuards(ApiKeyGuard)\<close> is on the controller class, so the
  guard runs before every handler, \<open>getFile\<close> included.
\<close>

datatype handler = H_upload | H_getByID | H_getFile | H_list | H_update | H_delete

fun requiredPermission :: "api_key_permissions \<Rightarrow> handler \<Rightarrow> perm option" where
  "requiredPermission P H_upload = Some (WRITE P)"
| "requiredPermission P H_getByID = Some (READ P)"
| "requiredPermission P H_getFile = Some (READ P)"
| "requiredPermission P H_list = Some (READ P)"
| "requiredPermission P H_update = Some (WRITE P)"
| "requiredPermission P H_delete = Some (DELETE P)"

definition guard ::
  "(string \<Rightarrow> string) \<Rightarrow> api_key_permissions \<Rightarrow> api_key list \<Rightarrow> handler \<Rightarrow> string option
     \<Rightarrow> exn + api_key" where
  "guard sha256 P keys h header = canActivate sha256 keys header (requiredPermission P h)"

section \<open>The image store (src/image/image.service.ts)\<close>

subsection \<open>Data\<close>

text \<open>
  \<open>IMAGE_STATUS\<close> and \<open>IImage\<close> come from \<open>imagelib\<close>; the fields are the ones
  \<open>upload\<close> fills in, and \<open>createdAt\<close> is the timestamp the store adds on
  \<open>save\<close> (\<open>list\<close> sorts by it).
\<close>

datatype image_status = ACTIVE | DELETED

type_synonym bytes = "8 word list"

record image =
  ImageID :: string
  AppID :: string
  FileName :: string
  OriginalFileName :: string
  MimeType :: string
  Size :: nat
  Tags :: "string list"
  Description :: string
  Alt :: string
  Status :: image_status
  UploadedBy :: string
  createdAt :: nat

text \<open>\<open>Express.Multer.File\<close>, the fields \<open>upload\<close> reads (\<open>size'\<close> is its \<open>size\<close>).\<close>

record multer_file =
  originalname :: string
  mimetype :: string
  size' :: nat
  buffer :: bytes

text \<open>
  The optional metadata of \<open>upload\<close> and \<open>updateMetadata\<close>; \<open>None\<close> is
  \<open>undefined\<close>.
\<close>

record metadata =
  tags :: "string list option"
  description :: "string option"
  alt :: "string option"

text \<open>
  The state the service works on: the image collection in insertion order, the files
  under the upload directory and the tenant directories that exist. A path
  \<open>path.join(getUploadDir(), appID, fileName)\<close> is the pair of its last two
  components: the upload directory is fixed for the process.
\<close>

type_synonym path = "string \<times> string"

record store =
  images :: "image list"
  files :: "path \<rightharpoonup> bytes"
  dirs :: "string set"

text \<open>
  What a call of \<open>upload\<close> takes from its environment: the identifier
  \<open>crypto.randomUUID()\<close> returns, the time of the \<open>save\<close>, and whether the
  document store rejects the \<open>save\<close>.
\<close>

record env =
  randomUUID :: string
  now :: nat
  save_fails :: bool

text \<open>
  Modelled from the spec: \<open>MIME_TYPES\<close> of \<open>imagelib\<close> is missing from the sources.
  Spec section 4.2 fixes the allow-list as PNG, JPEG, WebP, GIF, SVG; the README lists
  the same five type names.
\<close>

definition MIME_TYPES :: "string list" where
  "MIME_TYPES = [''image/png'', ''image/jpeg'', ''image/webp'', ''image/gif'', ''image/svg+xml'']"

subsection \<open>Helpers\<close>

fun join :: "string \<Rightarrow> string list \<Rightarrow> string" where
  "join sep [] = []"
| "join sep [x] = x"
| "join sep (x # y # ys) = x @ sep @ join sep (y # ys)"

definition ext_map :: "string \<rightharpoonup> string" where
  "ext_map = [''image/png'' \<mapsto> ''.png'', ''image/jpeg'' \<mapsto> ''.jpg'',
              ''image/webp'' \<mapsto> ''.webp'', ''image/gif'' \<mapsto> ''.gif'',
              ''image/svg+xml'' \<mapsto> ''.svg'']"

text \<open>\<open>map[mime] || '.bin'\<close>: a missing entry and an empty string are both falsy.\<close>

definition getExtFromMime :: "string \<Rightarrow> string" where
  "getExtFromMime mime =
     (case ext_map mime of
        None \<Rightarrow> ''.bin''
      | Some e \<Rightarrow> if e = [] then ''.bin'' else e)"

text \<open>\<open>getAppDir\<close> creates the tenant directory when it does not exist.\<close>

definition getAppDir :: "store \<Rightarrow> string \<Rightarrow> string \<times> store" where
  "getAppDir st appID =
     (if appID \<notin> dirs st then (appID, st\<lparr>dirs := insert appID (dirs st)\<rparr>) else (appID, st))"

definition writeFileSync :: "store \<Rightarrow> path \<Rightarrow> bytes \<Rightarrow> store" where
  "writeFileSync st p content = st\<lparr>files := (files st)(p \<mapsto> content)\<rparr>"

definition existsSync :: "store \<Rightarrow> path \<Rightarrow> bool" where
  "existsSync st p = (files st p \<noteq> None)"

definition rmSync :: "store \<Rightarrow> path \<Rightarrow> store" where
  "rmSync st p = st\<lparr>files := (files st)(p := None)\<rparr>"

text \<open>
  \<open>Model.updateOne(filter, {$set: ...})\<close>: the first document that matches the filter
  is updated, the others are left as they are.
\<close>

fun updateOne :: "('a \<Rightarrow> bool) \<Rightarrow> ('a \<Rightarrow> 'a) \<Rightarrow> 'a list \<Rightarrow> 'a list" where
  "updateOne P f [] = []"
| "updateOne P f (x # xs) = (if P x then f x # xs else x # updateOne P f xs)"

subsection \<open>upload\<close>

text \<open>
  \<open>extname\<close> is the platform's \<open>path.extname\<close>, a parameter. The result is the
  outcome together with the state the call leaves behind: an exception does not undo
  the writes made before it.
\<close>

definition upload ::
  "(string \<Rightarrow> string) \<Rightarrow> env \<Rightarrow> store \<Rightarrow> string \<Rightarrow> string \<Rightarrow> multer_file option \<Rightarrow> metadata
     \<Rightarrow> (exn + image) \<times> store" where
  "upload extname e st appID uploadedBy file md =
     (case file of
        None \<Rightarrow> (Inl (BadRequestException ''No file provided''), st)
      | Some f \<Rightarrow>
          if mimetype f \<notin> set MIME_TYPES
          then (Inl (BadRequestException
                  (''Unsupported file type: '' @ mimetype f @ ''. Supported: ''
                     @ join '', '' MIME_TYPES)), st)
          else
            let imageID = randomUUID e;
                ext = (if extname (originalname f) \<noteq> [] then extname (originalname f)
                       else getExtFromMime (mimetype f));
                fileName = imageID @ ext;
                (dir, st1) = getAppDir st appID;
                filePath = (dir, fileName);
                st2 = writeFileSync st1 filePath (buffer f);
                img = \<lparr>ImageID = imageID, AppID = appID, FileName = fileName,
                       OriginalFileName = originalname f, MimeType = mimetype f,
                       Size = size' f,
                       Tags = (case tags md of None \<Rightarrow> [] | Some t \<Rightarrow> t),
                       Description = (case description md of None \<Rightarrow> [] | Some d \<Rightarrow> d),
                       Alt = (case alt md of None \<Rightarrow> [] | Some a \<Rightarrow> a),
                       Status = ACTIVE, UploadedBy = uploadedBy, createdAt = now e\<rparr>
            in if save_fails e then (Inl StoreError, st2)
               else (Inr img, st2\<lparr>images := images st2 @ [img]\<rparr>))"

subsection \<open>getByID, getFilePath\<close>

definition getByID :: "store \<Rightarrow> string \<Rightarrow> exn + image" where
  "getByID st imageID =
     (case find (\<lambda>r. ImageID r = imageID \<and> Status r = ACTIVE) (images st) of
        None \<Rightarrow> Inl (NotFoundException ''Image not found'')
      | Some img \<Rightarrow> Inr img)"

definition getFilePath :: "store \<Rightarrow> string \<Rightarrow> (exn + path) \<times> store" where
  "getFilePath st imageID =
     (case getByID st imageID of
        Inl err \<Rightarrow> (Inl err, st)
      | Inr img \<Rightarrow>
          let (dir, st1) = getAppDir st (AppID img);
              filePath = (dir, FileName img)
          in if \<not> existsSync st1 filePath
             then (Inl (NotFoundException ''Image file not found on disk''), st1)
             else (Inr filePath, st1))"

subsection \<open>updateMetadata, delete\<close>

text \<open>\<open>setFields\<close>: a field is set only when the update supplies it.\<close>

definition setFields :: "metadata \<Rightarrow> image \<Rightarrow> image" where
  "setFields updates r =
     (let r1 = (case tags updates of None \<Rightarrow> r | Some t \<Rightarrow> r\<lparr>Tags := t\<rparr>);
          r2 = (case description updates of None \<Rightarrow> r1 | Some d \<Rightarrow> r1\<lparr>Description := d\<rparr>);
          r3 = (case alt updates of None \<Rightarrow> r2 | Some a \<Rightarrow> r2\<lparr>Alt := a\<rparr>)
      in r3)"

text \<open>
  The record returned is what \<open>findOne({ImageID})\<close> gives after the update, which
  the source casts to a record but may be \<open>null\<close>: an \<open>option\<close> here.
\<close>

definition updateMetadata :: "store \<Rightarrow> string \<Rightarrow> metadata \<Rightarrow> (exn + image option) \<times> store" where
  "updateMetadata st imageID updates =
     (case getByID st imageID of
        Inl err \<Rightarrow> (Inl err, st)
      | Inr img \<Rightarrow>
          let st1 = st\<lparr>images := updateOne (\<lambda>r. ImageID r = imageID) (setFields updates) (images st)\<rparr>
          in (Inr (find (\<lambda>r. ImageID r = imageID) (images st1)), st1))"

definition delete :: "store \<Rightarrow> string \<Rightarrow> (exn + unit) \<times> store" where
  "delete st imageID =
     (case getByID st imageID of
        Inl err \<Rightarrow> (Inl err, st)
      | Inr img \<Rightarrow>
          let st1 = st\<lparr>images := updateOne (\<lambda>r. ImageID r = imageID)
                                   (\<lambda>r. r\<lparr>Status := DELETED\<rparr>) (images st)\<rparr>;
              (dir, st2) = getAppDir st1 (AppID img);
              filePath = (dir, FileName img)
          in if existsSync st2 filePath then (Inr (), rmSync st2 filePath)
             else (Inr (), st2))"

subsection \<open>list\<close>

text \<open>
  The options of \<open>list\<close>. \<open>page\<close> and \<open>limit\<close> are the numbers the controller gets
  from \<open>parseInt\<close>: \<open>None\<close> is \<open>undefined\<close> or \<open>NaN\<close>, both falsy, as is 0.
\<close>

record list_options =
  page :: "int option"
  limit :: "int option"
  tags' :: "string list option"
  search :: "string option"

text \<open>
  The filter object. \<open>Tags: {$in: tags}\<close> holds when some tag of the record is in the
  list; \<open>regex\<close> is the store's case-insensitive \<open>$regex\<close> match, a parameter
  (pattern first).
\<close>

definition matches :: "(string \<Rightarrow> string \<Rightarrow> bool) \<Rightarrow> string \<Rightarrow> list_options \<Rightarrow> image \<Rightarrow> bool" where
  "matches regex appID options r =
     (AppID r = appID \<and> Status r = ACTIVE
      \<and> (case tags' options of
            None \<Rightarrow> True
          | Some ts \<Rightarrow> ts = [] \<or> (\<exists>t \<in> set (Tags r). t \<in> set ts))
      \<and> (case search options of
            None \<Rightarrow> True
          | Some s \<Rightarrow> s = [] \<or> regex s (Description r) \<or> regex s (OriginalFileName r)
                       \<or> regex s (Alt r)))"

text \<open>
  \<open>find(filter).sort({createdAt: -1}).skip(skip).limit(limit)\<close> of the document store:
  the matching documents, newest first, without the first \<open>skip\<close> and cut to
  \<open>limit\<close> (0 is no limit). Both numbers are counts for the store; a negative one is
  outside its contract and is the store's error in this model.
\<close>

definition find_sort_skip_limit ::
  "(image \<Rightarrow> bool) \<Rightarrow> int \<Rightarrow> int \<Rightarrow> image list \<Rightarrow> exn + image list" where
  "find_sort_skip_limit flt skip lim docs =
     (if skip < 0 \<or> lim < 0 then Inl StoreError
      else let sorted_docs = rev (sort_key createdAt (filter flt docs));
               rest = drop (nat skip) sorted_docs
           in Inr (if lim = 0 then rest else take (nat lim) rest))"

definition countDocuments :: "(image \<Rightarrow> bool) \<Rightarrow> image list \<Rightarrow> nat" where
  "countDocuments flt docs = length (filter flt docs)"

definition list ::
  "(string \<Rightarrow> string \<Rightarrow> bool) \<Rightarrow> store \<Rightarrow> string \<Rightarrow> list_options \<Rightarrow> exn + image list \<times> nat" where
  "list regex st appID options =
     (let page = (case page options of None \<Rightarrow> 1 | Some p \<Rightarrow> if p = 0 then 1 else p);
          limit = min (case limit options of None \<Rightarrow> 20 | Some l \<Rightarrow> if l = 0 then 20 else l) 100;
          skip = (page - 1) * limit;
          flt = matches regex appID options
      in case find_sort_skip_limit flt skip limit (images st) of
           Inl err \<Rightarrow> Inl err
         | Inr imgs \<Rightarrow> Inr (imgs, countDocuments flt (images st)))"

section \<open>The controller (ImageController)\<close>

text \<open>
  \<open>FileInterceptor('file', {limits: {fileSize: 10 * 1024 * 1024}})\<close>: the file part of
  the form, when there is one, is refused once its size reaches the limit (a part of
  exactly 10 MiB is refused already) and handed on otherwise.
\<close>

definition FileInterceptor :: "multer_file option \<Rightarrow> exn + multer_file option" where
  "FileInterceptor part =
     (case part of
        None \<Rightarrow> Inr None
      | Some f \<Rightarrow> if size' f \<ge> 10 * 1024 * 1024 then Inl PayloadTooLargeException
                  else Inr (Some f))"

text \<open>
  The upload handler behind the guard and the interceptor. \<open>JSON_parse\<close> is the
  platform's parser on the \<open>tags\<close> field (\<open>None\<close> when it throws), a parameter;
  the field is parsed only when it is a non-empty string.
\<close>

definition controller_upload ::
  "(string \<Rightarrow> string) \<Rightarrow> api_key_permissions \<Rightarrow> (string \<Rightarrow> string list option)
     \<Rightarrow> (string \<Rightarrow> string) \<Rightarrow> api_key list \<Rightarrow> env \<Rightarrow> store \<Rightarrow> string option
     \<Rightarrow> multer_file option \<Rightarrow> string option \<Rightarrow> string option \<Rightarrow> string option
     \<Rightarrow> (exn + image) \<times> store" where
  "controller_upload sha256 P JSON_parse extname keys e st header part tagsField descr altField =
     (case guard sha256 P keys H_upload header of
        Inl err \<Rightarrow> (Inl err, st)
      | Inr apiKey \<Rightarrow>
          (case FileInterceptor part of
             Inl err \<Rightarrow> (Inl err, st)
           | Inr file \<Rightarrow>
               (case (case tagsField of
                        None \<Rightarrow> Some []
                      | Some t \<Rightarrow> if t = [] then Some [] else JSON_parse t) of
                  None \<Rightarrow> (Inl SyntaxError, st)
                | Some parsedTags \<Rightarrow>
                    upload extname e st (AppName apiKey) (AppName apiKey) file
                      \<lparr>tags = Some parsedTags, description = descr, alt = altField\<rparr>)))"

text \<open>
  The file handler: the response is the \<open>Content-Type\<close> header and the path handed
  to \<open>sendFile\<close>.
\<close>

definition controller_getFile ::
  "(string \<Rightarrow> string) \<Rightarrow> api_key_permissions \<Rightarrow> api_key list \<Rightarrow> store \<Rightarrow> string option
     \<Rightarrow> string \<Rightarrow> (exn + string \<times> path) \<times> store" where
  "controller_getFile sha256 P keys st header imageID =
     (case guard sha256 P keys H_getFile header of
        Inl err \<Rightarrow> (Inl err, st)
      | Inr apiKey \<Rightarrow>
          (case getFilePath st imageID of
             (Inl err, st1) \<Rightarrow> (Inl err, st1)
           | (Inr filePath, st1) \<Rightarrow>
               (case getByID st1 imageID of
                  Inl err \<Rightarrow> (Inl err, st1)
                | Inr img \<Rightarrow> (Inr (MimeType img, filePath), st1))))"

section \<open>Invariants\<close>

text \<open>Every active record has its file on disk.\<close>

definition active_backed :: "store \<Rightarrow> bool" where
  "active_backed st = (\<forall>r \<in> set (images st). Status r = ACTIVE \<longrightarrow> existsSync st (AppID r, FileName r))"

section \<open>Sample inputs\<close>

text \<open>
  Concrete inputs on which the theorems below are evaluated. \<open>sample_sha256\<close> and
  \<open>sample_extname\<close> stand for the platform's digest and \<open>path.extname\<close>: the
  second gives a plain file name's suffix from its last dot; \<open>no_match\<close> stands
  for the store's \<open>$regex\<close> match in calls that carry no search string. The store \<open>store4\<close>
  holds two active records of \<open>app1\<close> (the file of \<open>id-b\<close> is missing from disk),
  a deleted one, and an active record of \<open>app2\<close>.
\<close>

definition sample_sha256 :: "string \<Rightarrow> string" where
  "sample_sha256 k = ''sha256:'' @ k"

definition sample_extname :: "string \<Rightarrow> string" where
  "sample_extname name =
     (if CHR ''.'' \<in> set name then CHR ''.'' # rev (takeWhile (\<lambda>c. c \<noteq> CHR ''.'') (rev name)) else [])"

definition sample_permissions :: api_key_permissions where
  "sample_permissions = \<lparr>READ = 1, WRITE = 2, DELETE = 4, ADMIN = 8\<rparr>"

definition key_rw :: api_key where
  "key_rw = \<lparr>ApiKeyID = 1000, AppName = ''app1'', Key = ''sha256:secret'', Permissions = 3, Active = True\<rparr>"

definition key_r :: api_key where
  "key_r = \<lparr>ApiKeyID = 1001, AppName = ''app2'', Key = ''sha256:readonly'', Permissions = 1, Active = True\<rparr>"

definition empty_store :: store where
  "empty_store = \<lparr>images = [], files = Map.empty, dirs = {}\<rparr>"

definition env1 :: env where
  "env1 = \<lparr>randomUUID = ''id-1'', now = 100, save_fails = False\<rparr>"

definition env_fail :: env where
  "env_fail = \<lparr>randomUUID = ''id-1'', now = 100, save_fails = True\<rparr>"

definition cat_png :: multer_file where
  "cat_png = \<lparr>originalname = ''cat.png'', mimetype = ''image/png'', size' = 3, buffer = [137, 80, 78]\<rparr>"

definition empty_png :: multer_file where
  "empty_png = \<lparr>originalname = ''empty.png'', mimetype = ''image/png'', size' = 0, buffer = []\<rparr>"

definition big_png :: multer_file where
  "big_png = \<lparr>originalname = ''big.png'', mimetype = ''image/png'', size' = 10485761,
              buffer = replicate 10485761 0\<rparr>"

definition no_metadata :: metadata where
  "no_metadata = \<lparr>tags = None, description = None, alt = None\<rparr>"

definition only_description :: metadata where
  "only_description = \<lparr>tags = None, description = Some ''x'', alt = None\<rparr>"

definition img_a :: image where
  "img_a = \<lparr>ImageID = ''id-a'', AppID = ''app1'', FileName = ''id-a.png'',
            OriginalFileName = ''a.png'', MimeType = ''image/png'', Size = 3, Tags = [''avatar''],
            Description = ''first'', Alt = ''A'', Status = ACTIVE, UploadedBy = ''app1'',
            createdAt = 10\<rparr>"

definition img_b :: image where
  "img_b = \<lparr>ImageID = ''id-b'', AppID = ''app1'', FileName = ''id-b.jpg'',
            OriginalFileName = ''b.jpg'', MimeType = ''image/jpeg'', Size = 4, Tags = [],
            Description = ''second'', Alt = [], Status = ACTIVE, UploadedBy = ''app1'',
            createdAt = 20\<rparr>"

definition img_c :: image where
  "img_c = \<lparr>ImageID = ''id-c'', AppID = ''app1'', FileName = ''id-c.gif'',
            OriginalFileName = ''c.gif'', MimeType = ''image/gif'', Size = 5, Tags = [],
            Description = ''third'', Alt = [], Status = DELETED, UploadedBy = ''app1'',
            createdAt = 30\<rparr>"

definition img_d :: image where
  "img_d = \<lparr>ImageID = ''id-d'', AppID = ''app2'', FileName = ''id-d.png'',
            OriginalFileName = ''d.png'', MimeType = ''image/png'', Size = 6, Tags = [],
            Description = ''other tenant'', Alt = [], Status = ACTIVE, UploadedBy = ''app2'',
            createdAt = 40\<rparr>"

definition store4 :: store where
  "store4 = \<lparr>images = [img_a, img_b, img_c, img_d],
             files = [(''app1'', ''id-a.png'') \<mapsto> [1, 2, 3],
                      (''app2'', ''id-d.png'') \<mapsto> [1, 2, 3, 4, 5, 6]],
             dirs = {''app1'', ''app2''}\<rparr>"

definition no_match :: "string \<Rightarrow> string \<Rightarrow> bool" where
  "no_match pattern s = False"

definition second_page_options :: list_options where
  "second_page_options = \<lparr>page = Some 2, limit = Some 1, tags' = None, search = None\<rparr>"

definition over_cap_options :: list_options where
  "over_cap_options = \<lparr>page = None, limit = Some 500, tags' = None, search = None\<rparr>"

definition negative_page_options :: list_options where
  "negative_page_options = \<lparr>page = Some (- 1), limit = None, tags' = None, search = None\<rparr>"

definition negative_limit_options :: list_options where
  "negative_limit_options = \<lparr>page = Some 2, limit = Some (- 5), tags' = None, search = None\<rparr>"

lemmas sample_defs = key_rw_def env1_def cat_png_def img_a_def img_b_def img_c_def img_d_def
  store4_def only_description_def empty_store_def no_metadata_def sample_sha256_def
  sample_extname_def sample_permissions_def

section \<open>Auxiliary lemmas\<close>

subsection \<open>The first match of a collection\<close>

lemma updateOne_first:
  "i < length xs \<Longrightarrow> P (xs ! i) \<Longrightarrow> \<forall>j<i. \<not> P (xs ! j) \<Longrightarrow> updateOne P f xs = xs[i := f (xs ! i)]"
proof (induction xs arbitrary: i)
  case Nil
  then show ?case by simp
next
  case (Cons x xs)
  show ?case
  proof (cases i)
    case 0
    with Cons.prems show ?thesis by simp
  next
    case (Suc k)
    with Cons.prems have "\<not> P x" by auto
    moreover have "updateOne P f xs = xs[k := f (xs ! k)]"
      using Cons.prems Suc by (intro Cons.IH) auto
    ultimately show ?thesis using Suc by simp
  qed
qed

lemma find_list_update_first:
  "i < length xs \<Longrightarrow> \<forall>j<i. \<not> P (xs ! j) \<Longrightarrow> P y \<Longrightarrow> find P (xs[i := y]) = Some y"
  by (auto simp: find_Some_iff intro!: exI[of _ i])

lemma find_weaken:
  assumes "find (\<lambda>r. P r \<and> Q r) xs = Some a"
  obtains i where "i < length xs" "P (xs ! i)" "\<forall>j<i. \<not> P (xs ! j)"
proof -
  from assms have "a \<in> set xs" "P a" by (auto simp: find_Some_iff)
  then have "find P xs \<noteq> None" by (auto simp: find_None_iff)
  then obtain b where "find P xs = Some b" by auto
  then show thesis using that by (auto simp: find_Some_iff)
qed

lemma distinct_first_is_it:
  assumes "distinct (map f xs)" "i < length xs" "a \<in> set xs" "f (xs ! i) = f a"
  shows "xs ! i = a"
proof -
  from assms(3) obtain k where k: "k < length xs" "xs ! k = a" by (auto simp: in_set_conv_nth)
  with assms have "map f xs ! i = map f xs ! k" by simp
  moreover have "i < length (map f xs)" "k < length (map f xs)" using assms(2) k by simp_all
  ultimately have "i = k" using assms(1) nth_eq_iff_index_eq by blast
  with k show ?thesis by simp
qed

lemma updateOne_keeps:
  "(\<And>r. g (f r) = g r) \<Longrightarrow> map g (updateOne P f xs) = map g xs"
  by (induction xs) auto

lemma find_active_after_delete:
  "distinct (map ImageID xs) \<Longrightarrow>
   find (\<lambda>r. ImageID r = imageID \<and> Status r = ACTIVE)
     (updateOne (\<lambda>r. ImageID r = imageID) (\<lambda>r. r\<lparr>Status := DELETED\<rparr>) xs) = None"
proof (induction xs)
  case Nil
  then show ?case by simp
next
  case (Cons x xs)
  show ?case
  proof (cases "ImageID x = imageID")
    case True
    with Cons.prems have "imageID \<notin> ImageID ` set xs" by simp
    then have "\<forall>r \<in> set xs. ImageID r \<noteq> imageID" by blast
    then have "find (\<lambda>r. ImageID r = imageID \<and> Status r = ACTIVE) xs = None"
      by (auto simp: find_None_iff)
    with True show ?thesis by simp
  next
    case False
    with Cons show ?thesis by simp
  qed
qed

lemma newest_first:
  "sorted_wrt (\<lambda>a b. createdAt b \<le> createdAt a) (rev (sort_key createdAt xs))"
proof -
  have "sorted (map createdAt (sort_key createdAt xs))" by (rule sorted_sort_key)
  then have "sorted_wrt (\<lambda>a b. createdAt a \<le> createdAt b) (sort_key createdAt xs)"
    by (simp add: sorted_map)
  then show ?thesis by (simp add: sorted_wrt_rev)
qed

subsection \<open>The service operations on an active record\<close>

lemma getByID_Inr_iff:
  "getByID st imageID = Inr a \<longleftrightarrow> find (\<lambda>r. ImageID r = imageID \<and> Status r = ACTIVE) (images st) = Some a"
  by (simp add: getByID_def split: option.split)

lemma getAppDir_eq: "getAppDir st a = (a, st\<lparr>dirs := insert a (dirs st)\<rparr>)"
  by (simp add: getAppDir_def insert_absorb)

lemma setFields_fields:
  "Tags (setFields u r) = (case tags u of None \<Rightarrow> Tags r | Some t \<Rightarrow> t)"
  "Description (setFields u r) = (case description u of None \<Rightarrow> Description r | Some d \<Rightarrow> d)"
  "Alt (setFields u r) = (case alt u of None \<Rightarrow> Alt r | Some a \<Rightarrow> a)"
  "ImageID (setFields u r) = ImageID r"
  "AppID (setFields u r) = AppID r"
  "FileName (setFields u r) = FileName r"
  "OriginalFileName (setFields u r) = OriginalFileName r"
  "MimeType (setFields u r) = MimeType r"
  "Size (setFields u r) = Size r"
  "Status (setFields u r) = Status r"
  "UploadedBy (setFields u r) = UploadedBy r"
  "createdAt (setFields u r) = createdAt r"
  by (simp_all add: setFields_def Let_def split: option.split)

lemma updateMetadata_active:
  assumes "getByID st imageID = Inr a"
  obtains i where "i < length (images st)" "ImageID (images st ! i) = imageID"
    "\<forall>j<i. ImageID (images st ! j) \<noteq> imageID"
    "updateMetadata st imageID updates =
       (Inr (Some (setFields updates (images st ! i))),
        st\<lparr>images := (images st)[i := setFields updates (images st ! i)]\<rparr>)"
proof -
  from assms have "find (\<lambda>r. ImageID r = imageID \<and> Status r = ACTIVE) (images st) = Some a"
    by (simp add: getByID_Inr_iff)
  then obtain i where i: "i < length (images st)" "ImageID (images st ! i) = imageID"
    "\<forall>j<i. ImageID (images st ! j) \<noteq> imageID"
    by (rule find_weaken)
  have keep: "ImageID (setFields updates r) = ImageID r" for r
    by (simp add: setFields_def Let_def split: option.split)
  have upd: "updateOne (\<lambda>r. ImageID r = imageID) (setFields updates) (images st)
               = (images st)[i := setFields updates (images st ! i)]"
    using i by (intro updateOne_first) auto
  have fnd: "find (\<lambda>r. ImageID r = imageID) ((images st)[i := setFields updates (images st ! i)])
               = Some (setFields updates (images st ! i))"
    using i by (intro find_list_update_first) (auto simp: keep)
  have "updateMetadata st imageID updates =
       (Inr (Some (setFields updates (images st ! i))),
        st\<lparr>images := (images st)[i := setFields updates (images st ! i)]\<rparr>)"
    using assms by (simp add: updateMetadata_def upd fnd)
  with i show thesis using that by blast
qed

lemma delete_active:
  assumes "getByID st imageID = Inr a"
  obtains i where "i < length (images st)" "ImageID (images st ! i) = imageID"
    "\<forall>j<i. ImageID (images st ! j) \<noteq> imageID"
    "delete st imageID =
       (Inr (), \<lparr>images = (images st)[i := (images st ! i)\<lparr>Status := DELETED\<rparr>],
                 files = (files st)((AppID a, FileName a) := None),
                 dirs = insert (AppID a) (dirs st)\<rparr>)"
proof -
  from assms have "find (\<lambda>r. ImageID r = imageID \<and> Status r = ACTIVE) (images st) = Some a"
    by (simp add: getByID_Inr_iff)
  then obtain i where i: "i < length (images st)" "ImageID (images st ! i) = imageID"
    "\<forall>j<i. ImageID (images st ! j) \<noteq> imageID"
    by (rule find_weaken)
  have upd: "updateOne (\<lambda>r. ImageID r = imageID) (\<lambda>r. r\<lparr>Status := DELETED\<rparr>) (images st)
               = (images st)[i := (images st ! i)\<lparr>Status := DELETED\<rparr>]"
    using i by (intro updateOne_first) auto
  have "delete st imageID =
       (Inr (), \<lparr>images = (images st)[i := (images st ! i)\<lparr>Status := DELETED\<rparr>],
                 files = (files st)((AppID a, FileName a) := None),
                 dirs = insert (AppID a) (dirs st)\<rparr>)"
    using assms
    by (auto simp: delete_def upd getAppDir_eq existsSync_def rmSync_def Let_def fun_eq_iff)
  with i show thesis using that by blast
qed

subsection \<open>Identifiers stay unique\<close>

text \<open>
  The operations keep the identifiers of the collection pairwise distinct, provided
  the identifier generated for an upload is not in use.
\<close>

lemma upload_keeps_ids_distinct:
  "distinct (map ImageID (images st)) \<Longrightarrow> randomUUID e \<notin> ImageID ` set (images st) \<Longrightarrow>
   distinct (map ImageID (images (snd (upload extname e st appID uploadedBy file md))))"
  by (auto simp: upload_def getAppDir_eq writeFileSync_def Let_def split: option.split)

lemma updateMetadata_keeps_ids:
  "map ImageID (images (snd (updateMetadata st imageID updates))) = map ImageID (images st)"
  by (auto simp: updateMetadata_def updateOne_keeps setFields_fields split: sum.split)

lemma delete_keeps_ids:
  "map ImageID (images (snd (delete st imageID))) = map ImageID (images st)"
  by (auto simp: delete_def getAppDir_eq rmSync_def Let_def updateOne_keeps split: sum.split)

section \<open>The claims\<close>

subsection \<open>C1: the file route and the credential\<close>

text \<open>
  Claim C1 says that \<open>GET /image/{id}/file\<close> never fails with Unauthenticated for a
  missing or invalid \<open>X-API-Key\<close> header, while every other image operation requires
  the credential. The code runs the guard before every handler of the controller, the
  file handler included: without the header the file route fails with
  \<open>UnauthorizedException\<close> and leaves the state as it is, for every store, key
  collection and identifier; so does every other handler; and with a header that no
  key record matches the file route fails with \<open>UnauthorizedException\<close> as well.
\<close>

theorem getFile_requires_api_key:
  "controller_getFile sha256 P keys st None imageID
     = (Inl (UnauthorizedException ''Missing X-API-Key header''), st)
   \<and> kind_of (UnauthorizedException ''Missing X-API-Key header'') = Some Unauthenticated
   \<and> guard sha256 P keys h None = Inl (UnauthorizedException ''Missing X-API-Key header'')
   \<and> (\<exists>m. controller_getFile sha256 P [] st header imageID = (Inl (UnauthorizedException m), st))"
  by (simp add: controller_getFile_def guard_def canActivate_def split: option.split)

subsection \<open>C2: authorisation\<close>

text \<open>
  Claim C2 as stated: authorisation fails with Forbidden if and only if the required
  permission is non-zero and its bitwise AND with the record's mask is zero. On a key
  that holds only the read bit, the upload handler (which requires the write bit) is
  refused with \<open>UnauthorizedException\<close>, whose kind is Unauthenticated and not
  Forbidden.
\<close>

theorem insufficient_permission_not_Forbidden:
  "guard sample_sha256 sample_permissions [key_r] H_upload (Some ''readonly'')
     = Inl (UnauthorizedException ''Insufficient permissions'')
   \<and> WRITE sample_permissions \<noteq> 0
   \<and> Permissions key_r AND WRITE sample_permissions = 0
   \<and> kind_of (UnauthorizedException ''Insufficient permissions'') = Some Unauthenticated
   \<and> kind_of (UnauthorizedException ''Insufficient permissions'') \<noteq> Some Forbidden"
  by (simp add: guard_def canActivate_def hasApiPermission_def key_r_def sample_defs)

text \<open>
  Claim C2, amended: for every key record that the presented key authenticates and
  every required permission, the guard fails if and only if the required permission is
  non-zero and its bitwise AND with the record's permission mask is zero, and the
  failure is \<open>UnauthorizedException\<close> (kind Unauthenticated); when the required
  permission is absent or zero, or the AND is non-zero, the guard succeeds with the
  key record.
\<close>

theorem canActivate_authorize:
  assumes "header = Some apiKey" and "apiKey \<noteq> []"
    and "find (\<lambda>k. Key k = sha256 apiKey \<and> Active k) keys = Some keyRecord"
  shows "canActivate sha256 keys header required
           = (if \<exists>r. required = Some r \<and> r \<noteq> 0 \<and> Permissions keyRecord AND r = 0
              then Inl (UnauthorizedException ''Insufficient permissions'')
              else Inr keyRecord)
         \<and> kind_of (UnauthorizedException ''Insufficient permissions'') = Some Unauthenticated"
  using assms by (cases required) (auto simp: canActivate_def hasApiPermission_def)

text \<open>
  The amended C2 on a key with the read and write bits: the upload handler is allowed,
  the delete handler is refused.
\<close>

theorem canActivate_authorize_witness:
  "find (\<lambda>k. Key k = sample_sha256 ''secret'' \<and> Active k) [key_rw] = Some key_rw
   \<and> canActivate sample_sha256 [key_rw] (Some ''secret'') (Some (WRITE sample_permissions))
       = Inr key_rw
   \<and> canActivate sample_sha256 [key_rw] (Some ''secret'') (Some (DELETE sample_permissions))
       = Inl (UnauthorizedException ''Insufficient permissions'')"
proof -
  have h: "find (\<lambda>k. Key k = sample_sha256 ''secret'' \<and> Active k) [key_rw] = Some key_rw"
    by (simp add: sample_defs)
  have w: "\<not> (\<exists>r. Some (WRITE sample_permissions) = Some r \<and> r \<noteq> 0 \<and> Permissions key_rw AND r = 0)"
    by (simp add: sample_defs)
  have d: "\<exists>r. Some (DELETE sample_permissions) = Some r \<and> r \<noteq> 0 \<and> Permissions key_rw AND r = 0"
    by (simp add: sample_defs)
  have "canActivate sample_sha256 [key_rw] (Some ''secret'') (Some (WRITE sample_permissions))
       = Inr key_rw"
    using canActivate_authorize [of "Some ''secret''" "''secret''" sample_sha256 "[key_rw]" key_rw
            "Some (WRITE sample_permissions)"] h w
    by simp
  moreover have "canActivate sample_sha256 [key_rw] (Some ''secret'') (Some (DELETE sample_permissions))
       = Inl (UnauthorizedException ''Insufficient permissions'')"
    using canActivate_authorize [of "Some ''secret''" "''secret''" sample_sha256 "[key_rw]" key_rw
            "Some (DELETE sample_permissions)"] h d
    by simp
  ultimately show ?thesis using h by blast
qed

subsection \<open>C3: rejected uploads\<close>

text \<open>
  Claim C3 as stated: an upload whose content is absent, empty, over the size cap or of
  a MIME type outside the allow-list fails with InvalidInput and writes nothing. An
  upload of zero bytes with an allowed MIME type is accepted: the empty file is written
  and its record is created.
\<close>

theorem upload_accepts_empty_content:
  "upload sample_extname env1 empty_store ''app1'' ''app1'' (Some empty_png) no_metadata
     = (Inr \<lparr>ImageID = ''id-1'', AppID = ''app1'', FileName = ''id-1.png'',
             OriginalFileName = ''empty.png'', MimeType = ''image/png'', Size = 0, Tags = [],
             Description = [], Alt = [], Status = ACTIVE, UploadedBy = ''app1'', createdAt = 100\<rparr>,
        \<lparr>images = [\<lparr>ImageID = ''id-1'', AppID = ''app1'', FileName = ''id-1.png'',
             OriginalFileName = ''empty.png'', MimeType = ''image/png'', Size = 0, Tags = [],
             Description = [], Alt = [], Status = ACTIVE, UploadedBy = ''app1'', createdAt = 100\<rparr>],
          files = [(''app1'', ''id-1.png'') \<mapsto> []], dirs = {''app1''}\<rparr>)
   \<and> buffer empty_png = [] \<and> size' empty_png = 0"
  by (simp add: upload_def empty_png_def env1_def empty_store_def no_metadata_def MIME_TYPES_def
      sample_extname_def getAppDir_def writeFileSync_def Let_def)

text \<open>
  Claim C3, amended: an upload whose file is absent, or whose declared MIME type is
  not in the allow-list, fails with \<open>BadRequestException\<close> (kind InvalidInput) and
  leaves the state unchanged: no file is written and no record is created. A file part
  over 10 MiB is refused before the service is called, whatever the rest of the
  request, and the state is unchanged as well. Empty content is not a reason to reject.
\<close>

theorem upload_rejects_invalid:
  "((file = None \<or> (\<exists>f. file = Some f \<and> mimetype f \<notin> set MIME_TYPES)) \<longrightarrow>
      (\<exists>m. upload extname e st appID uploadedBy file md = (Inl (BadRequestException m), st)
           \<and> kind_of (BadRequestException m) = Some InvalidInput))
   \<and> ((\<exists>f. part = Some f \<and> size' f > 10 * 1024 * 1024) \<longrightarrow>
      (\<exists>err. controller_upload sha256 P JSON_parse extname keys e st header part tagsField descr altField
             = (Inl err, st)))"
  by (auto simp: upload_def controller_upload_def FileInterceptor_def split: sum.split)

text \<open>
  The amended C3 on an upload without a file and on an authenticated upload of one
  byte more than 10 MiB.
\<close>

theorem upload_rejects_invalid_witness:
  "upload sample_extname env1 empty_store ''app1'' ''app1'' None no_metadata
     = (Inl (BadRequestException ''No file provided''), empty_store)
   \<and> size' big_png > 10 * 1024 * 1024
   \<and> (\<exists>err. controller_upload sample_sha256 sample_permissions (\<lambda>s. None) sample_extname [key_rw]
        env1 empty_store (Some ''secret'') (Some big_png) None None None = (Inl err, empty_store))"
proof -
  have big: "size' big_png > 10 * 1024 * 1024" by (simp add: big_png_def)
  have none: "upload sample_extname env1 empty_store ''app1'' ''app1'' None no_metadata
     = (Inl (BadRequestException ''No file provided''), empty_store)"
    by (simp add: upload_def)
  have "\<exists>err. controller_upload sample_sha256 sample_permissions (\<lambda>s. None) sample_extname [key_rw]
        env1 empty_store (Some ''secret'') (Some big_png) None None None = (Inl err, empty_store)"
    using upload_rejects_invalid [of None sample_extname env1 empty_store "''app1''" "''app1''"
       no_metadata "Some big_png" sample_sha256 sample_permissions "\<lambda>s. None" "[key_rw]"
       "Some ''secret''" None None None] big
    by blast
  moreover have "\<exists>m. upload sample_extname env1 empty_store ''app1'' ''app1'' None no_metadata
                 = (Inl (BadRequestException m), empty_store)"
    using upload_rejects_invalid [of None sample_extname env1 empty_store "''app1''" "''app1''"
       no_metadata "Some big_png" sample_sha256 sample_permissions "\<lambda>s. None" "[key_rw]"
       "Some ''secret''" None None None]
    by blast
  ultimately show ?thesis using big none by blast
qed

subsection \<open>C4: updating a deleted record\<close>

text \<open>
  Claim C4 as stated: update-metadata on a record in deleted status does not fail with
  NotFound and returns the refreshed record. In a store whose record \<open>id-c\<close> is
  deleted, the update fails with \<open>NotFoundException\<close> and the store is unchanged.
\<close>

theorem updateMetadata_deleted_NotFound:
  "updateMetadata store4 ''id-c'' only_description
     = (Inl (NotFoundException ''Image not found''), store4)
   \<and> images store4 ! 2 = img_c \<and> ImageID img_c = ''id-c'' \<and> Status img_c = DELETED
   \<and> kind_of (NotFoundException ''Image not found'') = Some NotFound"
  by (simp add: updateMetadata_def getByID_def sample_defs)

text \<open>
  Claim C4, amended: update-metadata applies to active records only. For every
  identifier whose records are all in deleted status it fails with NotFound and
  changes nothing. For the identifier of an active record, in a store with unique
  identifiers, it succeeds, replaces that record by the record with the supplied
  fields set, leaves it active and returns it.
\<close>

theorem updateMetadata_active_only:
  "((\<forall>r \<in> set (images st). ImageID r = imageID \<longrightarrow> Status r = DELETED) \<longrightarrow>
      updateMetadata st imageID updates = (Inl (NotFoundException ''Image not found''), st))
   \<and> (distinct (map ImageID (images st)) \<and> getByID st imageID = Inr a \<longrightarrow>
      (\<exists>i. i < length (images st) \<and> images st ! i = a
          \<and> updateMetadata st imageID updates
              = (Inr (Some (setFields updates a)),
                 st\<lparr>images := (images st)[i := setFields updates a]\<rparr>))
      \<and> Status (setFields updates a) = ACTIVE
      \<and> Tags (setFields updates a) = (case tags updates of None \<Rightarrow> Tags a | Some t \<Rightarrow> t)
      \<and> Description (setFields updates a)
          = (case description updates of None \<Rightarrow> Description a | Some d \<Rightarrow> d)
      \<and> Alt (setFields updates a) = (case alt updates of None \<Rightarrow> Alt a | Some x \<Rightarrow> x))"
proof (intro conjI impI)
  assume "\<forall>r \<in> set (images st). ImageID r = imageID \<longrightarrow> Status r = DELETED"
  then have "find (\<lambda>r. ImageID r = imageID \<and> Status r = ACTIVE) (images st) = None"
    by (auto simp: find_None_iff)
  then show "updateMetadata st imageID updates = (Inl (NotFoundException ''Image not found''), st)"
    by (simp add: updateMetadata_def getByID_def)
next
  assume h: "distinct (map ImageID (images st)) \<and> getByID st imageID = Inr a"
  then obtain i where i: "i < length (images st)" "ImageID (images st ! i) = imageID"
    and run: "updateMetadata st imageID updates =
       (Inr (Some (setFields updates (images st ! i))),
        st\<lparr>images := (images st)[i := setFields updates (images st ! i)]\<rparr>)"
    using updateMetadata_active by blast
  from h have "a \<in> set (images st)" "ImageID a = imageID"
    by (auto simp: getByID_Inr_iff find_Some_iff)
  with h i have "images st ! i = a"
    by (intro distinct_first_is_it[where f = ImageID]) auto
  with i run show "\<exists>i. i < length (images st) \<and> images st ! i = a
          \<and> updateMetadata st imageID updates
              = (Inr (Some (setFields updates a)),
                 st\<lparr>images := (images st)[i := setFields updates a]\<rparr>)"
    by auto
next
  assume h: "distinct (map ImageID (images st)) \<and> getByID st imageID = Inr a"
  then show "Status (setFields updates a) = ACTIVE"
    by (auto simp: getByID_Inr_iff find_Some_iff setFields_fields)
qed (simp_all add: setFields_fields)

text \<open>
  The amended C4 on the sample store: the deleted record \<open>id-c\<close> is not found, the
  active record \<open>id-a\<close> gets its new description.
\<close>

theorem updateMetadata_active_only_witness:
  "filter (\<lambda>r. ImageID r = ''id-c'') (images store4) = [img_c] \<and> Status img_c = DELETED
   \<and> updateMetadata store4 ''id-c'' only_description
       = (Inl (NotFoundException ''Image not found''), store4)
   \<and> distinct (map ImageID (images store4)) \<and> getByID store4 ''id-a'' = Inr img_a
   \<and> (\<exists>i. i < length (images store4) \<and> images store4 ! i = img_a
          \<and> updateMetadata store4 ''id-a'' only_description
              = (Inr (Some (setFields only_description img_a)),
                 store4\<lparr>images := (images store4)[i := setFields only_description img_a]\<rparr>))
   \<and> setFields only_description img_a = img_a\<lparr>Description := ''x''\<rparr>"
proof -
  have h1: "\<forall>r \<in> set (images store4). ImageID r = ''id-c'' \<longrightarrow> Status r = DELETED"
    by (simp add: sample_defs)
  have h2: "distinct (map ImageID (images store4)) \<and> getByID store4 ''id-a'' = Inr img_a"
    by (simp add: getByID_def sample_defs)
  have r1: "updateMetadata store4 ''id-c'' only_description
              = (Inl (NotFoundException ''Image not found''), store4)"
    using updateMetadata_active_only [of store4 "''id-c''" only_description img_c] h1 by blast
  have r2: "\<exists>i. i < length (images store4) \<and> images store4 ! i = img_a
          \<and> updateMetadata store4 ''id-a'' only_description
              = (Inr (Some (setFields only_description img_a)),
                 store4\<lparr>images := (images store4)[i := setFields only_description img_a]\<rparr>)"
    using updateMetadata_active_only [of store4 "''id-a''" only_description img_a] h2 by blast
  have r3: "setFields only_description img_a = img_a\<lparr>Description := ''x''\<rparr>"
    by (simp add: setFields_def only_description_def)
  have r4: "filter (\<lambda>r. ImageID r = ''id-c'') (images store4) = [img_c] \<and> Status img_c = DELETED"
    by (simp add: sample_defs)
  show ?thesis using h2 r1 r2 r3 r4 by blast
qed

subsection \<open>C5: the file is written before the record is created\<close>

text \<open>
  Claim C5: an upload that passes validation writes the content to the tenant's
  directory, creating the directory when it is absent, before it creates the record.
  Whatever the outcome of the save, the file is on disk under the tenant's directory
  with the uploaded content, the directory exists and no other file has changed. When
  the save fails no record is created, so the file is all that remains. When it
  succeeds exactly one record is appended; it is active, belongs to the tenant and its
  file exists. If every active record had its file before the call, every active
  record has its file after it.
\<close>

theorem upload_file_before_record:
  assumes "mimetype f \<in> set MIME_TYPES"
  shows "\<exists>res st'. upload extname e st appID uploadedBy (Some f) md = (res, st')
     \<and> files st' (appID, randomUUID e @ (if extname (originalname f) \<noteq> []
                                           then extname (originalname f)
                                           else getExtFromMime (mimetype f))) = Some (buffer f)
     \<and> (\<forall>p. p \<noteq> (appID, randomUUID e @ (if extname (originalname f) \<noteq> []
                                            then extname (originalname f)
                                            else getExtFromMime (mimetype f)))
            \<longrightarrow> files st' p = files st p)
     \<and> dirs st' = insert appID (dirs st)
     \<and> (save_fails e \<longrightarrow> res = Inl StoreError \<and> images st' = images st)
     \<and> (\<not> save_fails e \<longrightarrow>
          (\<exists>img. res = Inr img \<and> images st' = images st @ [img] \<and> Status img = ACTIVE
                \<and> AppID img = appID
                \<and> FileName img = randomUUID e @ (if extname (originalname f) \<noteq> []
                                                  then extname (originalname f)
                                                  else getExtFromMime (mimetype f))
                \<and> existsSync st' (AppID img, FileName img)))
     \<and> (active_backed st \<longrightarrow> active_backed st')"
  using assms
  by (auto simp: upload_def getAppDir_eq writeFileSync_def Let_def active_backed_def existsSync_def)

text \<open>
  C5 on an upload of \<open>cat.png\<close> into the empty store, once with a failing save and
  once with a successful one.
\<close>

theorem upload_file_before_record_witness:
  "mimetype cat_png \<in> set MIME_TYPES
   \<and> (\<exists>res st'. upload sample_extname env_fail empty_store ''app1'' ''app1'' (Some cat_png) no_metadata
                  = (res, st')
         \<and> files st' (''app1'', ''id-1.png'') = Some (buffer cat_png)
         \<and> res = Inl StoreError \<and> images st' = [])
   \<and> (\<exists>res st'. upload sample_extname env1 empty_store ''app1'' ''app1'' (Some cat_png) no_metadata
                  = (res, st')
         \<and> files st' (''app1'', ''id-1.png'') = Some (buffer cat_png)
         \<and> (\<exists>img. res = Inr img \<and> images st' = [img]) \<and> active_backed st')"
proof -
  have m: "mimetype cat_png \<in> set MIME_TYPES" by (simp add: cat_png_def MIME_TYPES_def)
  have n: "randomUUID env1 @ (if sample_extname (originalname cat_png) \<noteq> []
                                 then sample_extname (originalname cat_png)
                                 else getExtFromMime (mimetype cat_png)) = ''id-1.png''"
          "randomUUID env_fail @ (if sample_extname (originalname cat_png) \<noteq> []
                                 then sample_extname (originalname cat_png)
                                 else getExtFromMime (mimetype cat_png)) = ''id-1.png''"
    by (simp_all add: env_fail_def sample_defs)
  have b: "active_backed empty_store" "images empty_store = []" "save_fails env_fail"
    "\<not> save_fails env1"
    by (simp_all add: active_backed_def empty_store_def env_fail_def env1_def)
  have f: "\<exists>res st'. upload sample_extname env_fail empty_store ''app1'' ''app1'' (Some cat_png) no_metadata
                  = (res, st')
         \<and> files st' (''app1'', ''id-1.png'') = Some (buffer cat_png)
         \<and> res = Inl StoreError \<and> images st' = []"
    using upload_file_before_record [OF m, of sample_extname env_fail empty_store "''app1''"
            "''app1''" no_metadata] b
    unfolding n by auto
  have s: "\<exists>res st'. upload sample_extname env1 empty_store ''app1'' ''app1'' (Some cat_png) no_metadata
                  = (res, st')
         \<and> files st' (''app1'', ''id-1.png'') = Some (buffer cat_png)
         \<and> (\<exists>img. res = Inr img \<and> images st' = [img]) \<and> active_backed st'"
    using upload_file_before_record [OF m, of sample_extname env1 empty_store "''app1''"
            "''app1''" no_metadata] b
    unfolding n by auto
  from m f s show ?thesis by blast
qed

subsection \<open>C6: delete\<close>

text \<open>
  Claim C6: after a successful delete, get-metadata on the identifier fails with
  NotFound and so does a second delete, which changes nothing. The delete sets the
  status of the record to deleted, leaving the other records as they are, and the
  record's file is not on disk afterwards. A missing file is tolerated: the delete of
  an active record whose file is absent succeeds and leaves the files as they are.
  Identifiers are unique in the store, as generated identifiers are.
\<close>

theorem delete_then_NotFound:
  "(distinct (map ImageID (images st)) \<and> delete st imageID = (Inr (), st') \<longrightarrow>
       getByID st' imageID = Inl (NotFoundException ''Image not found'')
     \<and> delete st' imageID = (Inl (NotFoundException ''Image not found''), st')
     \<and> (\<exists>a i. getByID st imageID = Inr a \<and> i < length (images st) \<and> images st ! i = a
           \<and> images st' = (images st)[i := a\<lparr>Status := DELETED\<rparr>]
           \<and> files st' = (files st)((AppID a, FileName a) := None)
           \<and> \<not> existsSync st' (AppID a, FileName a)))
   \<and> (getByID st imageID = Inr b \<and> \<not> existsSync st (AppID b, FileName b) \<longrightarrow>
        (\<exists>st''. delete st imageID = (Inr (), st'') \<and> files st'' = files st))"
proof (intro conjI impI)
  assume h: "distinct (map ImageID (images st)) \<and> delete st imageID = (Inr (), st')"
  then obtain a where a: "getByID st imageID = Inr a"
    by (auto simp: delete_def split: sum.splits)
  then obtain i where i: "i < length (images st)" "ImageID (images st ! i) = imageID"
    and run: "delete st imageID =
       (Inr (), \<lparr>images = (images st)[i := (images st ! i)\<lparr>Status := DELETED\<rparr>],
                 files = (files st)((AppID a, FileName a) := None),
                 dirs = insert (AppID a) (dirs st)\<rparr>)"
    by (rule delete_active)
  from a have "a \<in> set (images st)" "ImageID a = imageID"
    by (auto simp: getByID_Inr_iff find_Some_iff)
  with h i have ia: "images st ! i = a"
    by (intro distinct_first_is_it[where f = ImageID]) auto
  from run h have st': "st' = \<lparr>images = (images st)[i := (images st ! i)\<lparr>Status := DELETED\<rparr>],
                 files = (files st)((AppID a, FileName a) := None),
                 dirs = insert (AppID a) (dirs st)\<rparr>"
    by simp
  from a h have "images st'
      = updateOne (\<lambda>r. ImageID r = imageID) (\<lambda>r. r\<lparr>Status := DELETED\<rparr>) (images st)"
    by (auto simp: delete_def getAppDir_eq Let_def rmSync_def split: if_splits)
  with h show gone: "getByID st' imageID = Inl (NotFoundException ''Image not found'')"
    by (simp add: getByID_def find_active_after_delete)
  then show "delete st' imageID = (Inl (NotFoundException ''Image not found''), st')"
    by (simp add: delete_def)
  from st' ia i(1) a have "getByID st imageID = Inr a \<and> i < length (images st) \<and> images st ! i = a
             \<and> images st' = (images st)[i := a\<lparr>Status := DELETED\<rparr>]
             \<and> files st' = (files st)((AppID a, FileName a) := None)
             \<and> \<not> existsSync st' (AppID a, FileName a)"
    by (simp add: existsSync_def)
  then show "\<exists>a i. getByID st imageID = Inr a \<and> i < length (images st) \<and> images st ! i = a
           \<and> images st' = (images st)[i := a\<lparr>Status := DELETED\<rparr>]
           \<and> files st' = (files st)((AppID a, FileName a) := None)
           \<and> \<not> existsSync st' (AppID a, FileName a)"
    by blast
next
  assume h: "getByID st imageID = Inr b \<and> \<not> existsSync st (AppID b, FileName b)"
  then show "\<exists>st''. delete st imageID = (Inr (), st'') \<and> files st'' = files st"
    by (simp add: delete_def getAppDir_eq existsSync_def Let_def)
qed

text \<open>
  C6 on the sample store: \<open>id-a\<close> is deleted and then no longer found; \<open>id-b\<close>,
  whose file is missing, is deleted without an error.
\<close>

theorem delete_then_NotFound_witness:
  "distinct (map ImageID (images store4))
   \<and> delete store4 ''id-a''
       = (Inr (), store4\<lparr>images := [img_a\<lparr>Status := DELETED\<rparr>, img_b, img_c, img_d],
                         files := (files store4)((''app1'', ''id-a.png'') := None)\<rparr>)
   \<and> getByID (store4\<lparr>images := [img_a\<lparr>Status := DELETED\<rparr>, img_b, img_c, img_d],
                       files := (files store4)((''app1'', ''id-a.png'') := None)\<rparr>) ''id-a''
       = Inl (NotFoundException ''Image not found'')
   \<and> getByID store4 ''id-b'' = Inr img_b \<and> \<not> existsSync store4 (AppID img_b, FileName img_b)
   \<and> (\<exists>st''. delete store4 ''id-b'' = (Inr (), st'') \<and> files st'' = files store4)"
proof -
  have h1: "distinct (map ImageID (images store4))" by (simp add: sample_defs)
  have h2: "delete store4 ''id-a''
       = (Inr (), store4\<lparr>images := [img_a\<lparr>Status := DELETED\<rparr>, img_b, img_c, img_d],
                         files := (files store4)((''app1'', ''id-a.png'') := None)\<rparr>)"
    by (simp add: delete_def getByID_def getAppDir_def existsSync_def rmSync_def sample_defs)
  have h3: "getByID store4 ''id-b'' = Inr img_b \<and> \<not> existsSync store4 (AppID img_b, FileName img_b)"
    by (simp add: getByID_def existsSync_def sample_defs)
  have r1: "getByID (store4\<lparr>images := [img_a\<lparr>Status := DELETED\<rparr>, img_b, img_c, img_d],
                       files := (files store4)((''app1'', ''id-a.png'') := None)\<rparr>) ''id-a''
       = Inl (NotFoundException ''Image not found'')"
    using delete_then_NotFound [of store4 "''id-a''" _ img_b] h1 h2 by blast
  have r2: "\<exists>st''. delete store4 ''id-b'' = (Inr (), st'') \<and> files st'' = files store4"
    using delete_then_NotFound [of store4 "''id-b''" store4 img_b] h3 by blast
  show ?thesis using h1 h2 h3 r1 r2 by blast
qed

subsection \<open>C7: partial update\<close>

text \<open>
  Claim C7: a successful update-metadata changes one record, the first with the
  identifier, and in it only the fields the update supplies: tags, description and
  alt text each take the supplied value or keep the prior one, and identifier, tenant,
  file name, original file name, MIME type, size, status, uploader and creation
  timestamp are unchanged. Every other record, the files and the directories are as
  before, and the record returned is the updated one.
\<close>

theorem updateMetadata_partial:
  assumes "updateMetadata st imageID updates = (Inr res, st')"
  shows "\<exists>i r r'. i < length (images st) \<and> r = images st ! i \<and> ImageID r = imageID
           \<and> images st' = (images st)[i := r'] \<and> res = Some r'
           \<and> files st' = files st \<and> dirs st' = dirs st
           \<and> Tags r' = (case tags updates of None \<Rightarrow> Tags r | Some t \<Rightarrow> t)
           \<and> Description r' = (case description updates of None \<Rightarrow> Description r | Some d \<Rightarrow> d)
           \<and> Alt r' = (case alt updates of None \<Rightarrow> Alt r | Some a \<Rightarrow> a)
           \<and> ImageID r' = ImageID r \<and> AppID r' = AppID r \<and> FileName r' = FileName r
           \<and> OriginalFileName r' = OriginalFileName r \<and> MimeType r' = MimeType r
           \<and> Size r' = Size r \<and> Status r' = Status r \<and> UploadedBy r' = UploadedBy r
           \<and> createdAt r' = createdAt r"
proof -
  from assms obtain a where a: "getByID st imageID = Inr a"
    by (auto simp: updateMetadata_def split: sum.splits)
  then obtain i where i: "i < length (images st)" "ImageID (images st ! i) = imageID"
    and run: "updateMetadata st imageID updates =
       (Inr (Some (setFields updates (images st ! i))),
        st\<lparr>images := (images st)[i := setFields updates (images st ! i)]\<rparr>)"
    by (rule updateMetadata_active)
  from run assms have "res = Some (setFields updates (images st ! i))"
    "st' = st\<lparr>images := (images st)[i := setFields updates (images st ! i)]\<rparr>"
    by simp_all
  with i show ?thesis
    by (intro exI[of _ i] exI[of _ "images st ! i"] exI[of _ "setFields updates (images st ! i)"])
       (simp add: setFields_fields)
qed

text \<open>
  C7 on an update of \<open>id-a\<close> that supplies only a description: tags and alt text
  keep their values.
\<close>

theorem updateMetadata_partial_witness:
  "updateMetadata store4 ''id-a'' only_description
     = (Inr (Some (img_a\<lparr>Description := ''x''\<rparr>)),
        store4\<lparr>images := [img_a\<lparr>Description := ''x''\<rparr>, img_b, img_c, img_d]\<rparr>)
   \<and> (\<exists>i r r'. i < length (images store4) \<and> r = images store4 ! i \<and> ImageID r = ''id-a''
         \<and> [img_a\<lparr>Description := ''x''\<rparr>, img_b, img_c, img_d] = (images store4)[i := r']
         \<and> Some (img_a\<lparr>Description := ''x''\<rparr>) = Some r'
         \<and> Tags r' = Tags r \<and> Description r' = ''x'' \<and> Alt r' = Alt r)"
proof -
  have run: "updateMetadata store4 ''id-a'' only_description
     = (Inr (Some (img_a\<lparr>Description := ''x''\<rparr>)),
        store4\<lparr>images := [img_a\<lparr>Description := ''x''\<rparr>, img_b, img_c, img_d]\<rparr>)"
    by (simp add: updateMetadata_def getByID_def setFields_def sample_defs)
  have "\<exists>i r r'. i < length (images store4) \<and> r = images store4 ! i \<and> ImageID r = ''id-a''
         \<and> [img_a\<lparr>Description := ''x''\<rparr>, img_b, img_c, img_d] = (images store4)[i := r']
         \<and> Some (img_a\<lparr>Description := ''x''\<rparr>) = Some r'
         \<and> Tags r' = Tags r \<and> Description r' = ''x'' \<and> Alt r' = Alt r"
    using updateMetadata_partial [OF run] by (simp add: only_description_def) blast
  with run show ?thesis by blast
qed

subsection \<open>C8: list\<close>

text \<open>
  Claim C8 as stated: for every list call a slice of the tenant's active records is
  returned that skips \<open>(page - 1) * size\<close> records, with the total. The controller
  hands on whatever \<open>parseInt\<close> makes of the query strings. With page \<open>-1\<close> and
  the default size the skip is \<open>-40\<close>; with page \<open>2\<close> and size \<open>-5\<close> it is
  \<open>-5\<close>. The store does not take a negative skip: neither call returns a slice or
  a total.
\<close>

theorem list_negative_skip_rejected:
  "list no_match store4 ''app1'' negative_page_options = Inl StoreError
   \<and> page negative_page_options = Some (- 1) \<and> limit negative_page_options = None
   \<and> ((- 1 :: int) - 1) * min 20 100 = - 40
   \<and> list no_match store4 ''app1'' negative_limit_options = Inl StoreError
   \<and> page negative_limit_options = Some 2 \<and> limit negative_limit_options = Some (- 5)
   \<and> ((2 :: int) - 1) * min (- 5) 100 = - 5"
  by (simp add: list_def find_sort_skip_limit_def negative_page_options_def
      negative_limit_options_def)

text \<open>
  Claim C8, amended: for every list call whose page number and page size are absent
  or not negative, list returns a slice of the matching records ordered newest first,
  together with their number. The effective page is the given one, or 1 when it is
  absent or 0; the effective size is the given one, or 20 when it is absent or 0, and
  at most 100; the slice leaves out the first \<open>(page - 1) * size\<close> records and has
  at most \<open>size\<close>. Every record returned is active and belongs to the tenant; the
  total counts the records that match the filter, before the slice is taken.
\<close>

theorem list_page:
  assumes "\<forall>p. page options = Some p \<longrightarrow> 0 \<le> p" and "\<forall>l. limit options = Some l \<longrightarrow> 0 \<le> l"
  shows "\<exists>pg lim ms imgs total.
           pg = (case page options of None \<Rightarrow> 1 | Some p \<Rightarrow> if p = 0 then 1 else p)
         \<and> lim = min (case limit options of None \<Rightarrow> 20 | Some l \<Rightarrow> if l = 0 then 20 else l) 100
         \<and> list regex st appID options = Inr (imgs, total)
         \<and> mset ms = mset (filter (matches regex appID options) (images st))
         \<and> sorted_wrt (\<lambda>a b. createdAt b \<le> createdAt a) ms
         \<and> imgs = take (nat lim) (drop (nat ((pg - 1) * lim)) ms)
         \<and> total = length (filter (matches regex appID options) (images st))
         \<and> (\<forall>r \<in> set imgs. Status r = ACTIVE \<and> AppID r = appID)
         \<and> 1 \<le> lim \<and> lim \<le> 100 \<and> length imgs \<le> 100"
proof -
  define pg where "pg = (case page options of None \<Rightarrow> 1 | Some p \<Rightarrow> if p = 0 then 1 else p)"
  define lim where
    "lim = min (case limit options of None \<Rightarrow> 20 | Some l \<Rightarrow> if l = 0 then 20 else l) 100"
  define flt where "flt = matches regex appID options"
  define ms where "ms = rev (sort_key createdAt (filter flt (images st)))"
  have pg: "1 \<le> pg" using assms(1) by (auto simp: pg_def split: option.split)
  have lim: "1 \<le> lim" "lim \<le> 100" using assms(2) by (auto simp: lim_def split: option.split)
  have skip: "0 \<le> (pg - 1) * lim" using pg lim by simp
  have run: "list regex st appID options
           = Inr (take (nat lim) (drop (nat ((pg - 1) * lim)) ms), length (filter flt (images st)))"
    using skip lim
    by (simp add: list_def find_sort_skip_limit_def countDocuments_def Let_def
        pg_def [symmetric] lim_def [symmetric] flt_def [symmetric] ms_def [symmetric])
  have perm: "mset ms = mset (filter flt (images st))" by (simp add: ms_def)
  have srt: "sorted_wrt (\<lambda>a b. createdAt b \<le> createdAt a) ms"
    unfolding ms_def by (rule newest_first)
  have "set ms = set (filter flt (images st))" using perm by (rule mset_eq_setD)
  then have act: "\<forall>r \<in> set (take (nat lim) (drop (nat ((pg - 1) * lim)) ms)).
                    Status r = ACTIVE \<and> AppID r = appID"
    by (auto simp: flt_def matches_def dest!: in_set_takeD in_set_dropD)
  have len: "length (take (nat lim) (drop (nat ((pg - 1) * lim)) ms)) \<le> 100"
    using lim by simp
  show ?thesis
    using run perm srt act len lim unfolding pg_def lim_def flt_def by blast
qed

text \<open>
  The amended C8 on the sample store. With page 2 and size 1 the newer of the two
  active records of \<open>app1\<close> is skipped and the older one returned; with size 500 the
  effective size is 100. The total is 2 both times: the deleted record and the other
  tenant's record are left out.
\<close>

theorem list_page_witness:
  "page second_page_options = Some 2 \<and> limit second_page_options = Some 1
   \<and> list no_match store4 ''app1'' second_page_options = Inr ([img_a], 2)
   \<and> (\<exists>ms. mset ms = mset (filter (matches no_match ''app1'' second_page_options)
                                    (images store4))
          \<and> sorted_wrt (\<lambda>a b. createdAt b \<le> createdAt a) ms
          \<and> [img_a] = take 1 (drop 1 ms))
   \<and> page over_cap_options = None \<and> limit over_cap_options = Some 500
   \<and> list no_match store4 ''app1'' over_cap_options = Inr ([img_b, img_a], 2)
   \<and> (\<exists>ms. mset ms = mset (filter (matches no_match ''app1'' over_cap_options)
                                    (images store4))
          \<and> sorted_wrt (\<lambda>a b. createdAt b \<le> createdAt a) ms
          \<and> [img_b, img_a] = take 100 ms)"
proof -
  have p: "page second_page_options = Some 2 \<and> limit second_page_options = Some 1"
    by (simp add: second_page_options_def)
  have h1: "\<forall>p. page second_page_options = Some p \<longrightarrow> 0 \<le> p"
    and h2: "\<forall>l. limit second_page_options = Some l \<longrightarrow> 0 \<le> l"
    by (simp_all add: second_page_options_def)
  have run: "list no_match store4 ''app1'' second_page_options = Inr ([img_a], 2)"
    by (simp add: list_def find_sort_skip_limit_def countDocuments_def matches_def
        second_page_options_def sample_defs)
  have r: "\<exists>ms. mset ms = mset (filter (matches no_match ''app1'' second_page_options)
                                    (images store4))
          \<and> sorted_wrt (\<lambda>a b. createdAt b \<le> createdAt a) ms
          \<and> [img_a] = take 1 (drop 1 ms)"
    using list_page [OF h1 h2, of no_match store4 "''app1''"] run
    by (simp add: second_page_options_def) blast
  have p': "page over_cap_options = None \<and> limit over_cap_options = Some 500"
    by (simp add: over_cap_options_def)
  have h1': "\<forall>p. page over_cap_options = Some p \<longrightarrow> 0 \<le> p"
    and h2': "\<forall>l. limit over_cap_options = Some l \<longrightarrow> 0 \<le> l"
    by (simp_all add: over_cap_options_def)
  have run': "list no_match store4 ''app1'' over_cap_options = Inr ([img_b, img_a], 2)"
    by (simp add: list_def find_sort_skip_limit_def countDocuments_def matches_def
        over_cap_options_def sample_defs)
  have r': "\<exists>ms. mset ms = mset (filter (matches no_match ''app1'' over_cap_options)
                                    (images store4))
          \<and> sorted_wrt (\<lambda>a b. createdAt b \<le> createdAt a) ms
          \<and> [img_b, img_a] = take 100 ms"
    using list_page [OF h1' h2', of no_match store4 "''app1''"] run'
    by (simp add: over_cap_options_def) blast
  show ?thesis using p run r p' run' r' by blast
qed

subsection \<open>C9: the stored file name\<close>

text \<open>
  Claim C9: for every accepted upload the stored file name is the generated
  identifier followed by an extension: the extension of the original file name when
  that is not empty, otherwise the extension the MIME type maps to. The MIME type of
  an accepted upload has a non-empty entry in the extension map, so the \<open>.bin\<close>
  fallback is not taken.
\<close>

theorem upload_filename_extension:
  assumes "upload extname e st appID uploadedBy (Some f) md = (Inr img, st')"
  shows "\<exists>x. ext_map (mimetype f) = Some x \<and> x \<noteq> [] \<and> getExtFromMime (mimetype f) = x
           \<and> ImageID img = randomUUID e
           \<and> FileName img = ImageID img @ (if extname (originalname f) \<noteq> []
                                            then extname (originalname f) else x)"
proof -
  from assms have m: "mimetype f \<in> set MIME_TYPES"
    by (auto simp: upload_def split: if_splits)
  then have "\<exists>x. ext_map (mimetype f) = Some x \<and> x \<noteq> [] \<and> getExtFromMime (mimetype f) = x"
    by (auto simp: MIME_TYPES_def ext_map_def getExtFromMime_def)
  moreover from assms m have "ImageID img = randomUUID e"
    "FileName img = randomUUID e @ (if extname (originalname f) \<noteq> [] then extname (originalname f)
                                          else getExtFromMime (mimetype f))"
    by (auto simp: upload_def getAppDir_eq Let_def split: if_splits)
  ultimately show ?thesis by auto
qed

text \<open>C9 on the upload of \<open>cat.png\<close>, stored as \<open>id-1.png\<close>.\<close>

theorem upload_filename_extension_witness:
  "upload sample_extname env1 empty_store ''app1'' ''app1'' (Some cat_png) no_metadata
     = (Inr \<lparr>ImageID = ''id-1'', AppID = ''app1'', FileName = ''id-1.png'',
             OriginalFileName = ''cat.png'', MimeType = ''image/png'', Size = 3, Tags = [],
             Description = [], Alt = [], Status = ACTIVE, UploadedBy = ''app1'', createdAt = 100\<rparr>,
        snd (upload sample_extname env1 empty_store ''app1'' ''app1'' (Some cat_png) no_metadata))
   \<and> sample_extname (originalname cat_png) = ''.png''
   \<and> ext_map (mimetype cat_png) = Some ''.png''"
proof -
  have run: "upload sample_extname env1 empty_store ''app1'' ''app1'' (Some cat_png) no_metadata
     = (Inr \<lparr>ImageID = ''id-1'', AppID = ''app1'', FileName = ''id-1.png'',
             OriginalFileName = ''cat.png'', MimeType = ''image/png'', Size = 3, Tags = [],
             Description = [], Alt = [], Status = ACTIVE, UploadedBy = ''app1'', createdAt = 100\<rparr>,
        snd (upload sample_extname env1 empty_store ''app1'' ''app1'' (Some cat_png) no_metadata))"
    by (simp add: upload_def MIME_TYPES_def getAppDir_def writeFileSync_def Let_def sample_defs)
  have e: "sample_extname (originalname cat_png) = ''.png''"
    by (simp add: sample_defs)
  have "ext_map (mimetype cat_png) = Some ''.png''"
    using upload_filename_extension [OF run] by (simp add: ext_map_def cat_png_def)
  with run e show ?thesis by blast
qed

subsection \<open>C10: uploader and tenant\<close>

text \<open>
  Claim C10: every record created through the upload handler has the same uploader
  and tenant, and both are the application name of the key record that the presented
  API key authenticates.
\<close>

theorem controller_upload_uploader_is_tenant:
  assumes "controller_upload sha256 P JSON_parse extname keys e st header part tagsField descr altField
             = (Inr img, st')"
  shows "UploadedBy img = AppID img
       \<and> (\<exists>apiKey keyRecord. header = Some apiKey
             \<and> find (\<lambda>k. Key k = sha256 apiKey \<and> Active k) keys = Some keyRecord
             \<and> AppID img = AppName keyRecord)"
proof -
  from assms obtain keyRecord upfile parsedTags where
    g: "guard sha256 P keys H_upload header = Inr keyRecord" and
    u: "upload extname e st (AppName keyRecord) (AppName keyRecord) upfile
          \<lparr>tags = Some parsedTags, description = descr, alt = altField\<rparr> = (Inr img, st')"
    by (auto simp: controller_upload_def split: sum.splits option.splits if_splits)
  from u have "UploadedBy img = AppName keyRecord" "AppID img = AppName keyRecord"
    by (auto simp: upload_def getAppDir_eq Let_def split: option.splits if_splits)
  moreover from g have "\<exists>apiKey. header = Some apiKey
             \<and> find (\<lambda>k. Key k = sha256 apiKey \<and> Active k) keys = Some keyRecord"
    by (auto simp: guard_def canActivate_def split: option.splits if_splits)
  ultimately show ?thesis by auto
qed

text \<open>C10 on an authenticated upload of \<open>cat.png\<close> with the key of \<open>app1\<close>.\<close>

theorem controller_upload_uploader_is_tenant_witness:
  "controller_upload sample_sha256 sample_permissions (\<lambda>s. None) sample_extname [key_rw] env1
        empty_store (Some ''secret'') (Some cat_png) None None None
     = (Inr \<lparr>ImageID = ''id-1'', AppID = ''app1'', FileName = ''id-1.png'',
             OriginalFileName = ''cat.png'', MimeType = ''image/png'', Size = 3, Tags = [],
             Description = [], Alt = [], Status = ACTIVE, UploadedBy = ''app1'', createdAt = 100\<rparr>,
        snd (upload sample_extname env1 empty_store ''app1'' ''app1'' (Some cat_png) no_metadata))
   \<and> AppName key_rw = ''app1''"
proof -
  have run: "controller_upload sample_sha256 sample_permissions (\<lambda>s. None) sample_extname [key_rw] env1
        empty_store (Some ''secret'') (Some cat_png) None None None
     = (Inr \<lparr>ImageID = ''id-1'', AppID = ''app1'', FileName = ''id-1.png'',
             OriginalFileName = ''cat.png'', MimeType = ''image/png'', Size = 3, Tags = [],
             Description = [], Alt = [], Status = ACTIVE, UploadedBy = ''app1'', createdAt = 100\<rparr>,
        snd (upload sample_extname env1 empty_store ''app1'' ''app1'' (Some cat_png) no_metadata))"
    by (simp add: controller_upload_def guard_def canActivate_def hasApiPermission_def
        FileInterceptor_def upload_def MIME_TYPES_def getAppDir_def writeFileSync_def Let_def sample_defs)
  have "AppName key_rw = ''app1''"
    using controller_upload_uploader_is_tenant [OF run] by (simp add: key_rw_def sample_sha256_def)
  with run show ?thesis by blast
qed

end
